theory Spec2Isabelle
  imports Complex_Main "HOL-Library.Word"
begin

section \<open>PyNBIS: the extension module \<open>pynbis/_nbis_ext.c\<close>\<close>

text \<open>
  The extension module is the glue between Python callers and the NBIS engines
  (MINDTCT, Bozorth3, NFIQ). This theory embeds its four entry points,
  \<open>extract_minutiae\<close>, \<open>match_fingerprints\<close>, \<open>compute_nfiq\<close> and \<open>match_xyt\<close>,
  and the two helpers \<open>py_to_image_data\<close> and \<open>minutiae_to_xyt\<close>.

  The engines themselves (\<open>lfs_detect_minutiae_V2\<close>, \<open>comp_nfiq\<close>, \<open>bz_match_score\<close>)
  and the headers \<open>bozorth.h\<close>, \<open>lfs.h\<close>, \<open>nfiq.h\<close> are compiled from \<open>nbis_src/\<close>;
  what the module takes from them is collected in the record \<open>nbis_lib\<close> below and
  every entry point is a function of it.
\<close>

subsection \<open>C integers\<close>

text \<open>
  C \<open>int\<close> is 32 bits wide and \<open>long\<close>, \<open>npy_intp\<close>, \<open>Py_ssize_t\<close> and \<open>size_t\<close>
  are 64 bits wide (LP64). Values are kept as mathematical integers; a conversion
  to a narrower type is written out as the two's complement wrap-around.
\<close>

definition c_int :: "int \<Rightarrow> int" where
  \<comment> \<open>the cast \<open>(int)v\<close>\<close>
  "c_int v = sint (word_of_int v :: 32 word)"

definition c_size_t :: "int \<Rightarrow> nat" where
  \<comment> \<open>the conversion of an \<open>int\<close> to \<open>size_t\<close>\<close>
  "c_size_t v = unat (word_of_int v :: 64 word)"

definition INT_MIN :: int where "INT_MIN = - (2 ^ 31)"
definition INT_MAX :: int where "INT_MAX = 2 ^ 31 - 1"
definition LONG_MIN :: int where "LONG_MIN = - (2 ^ 63)"
definition LONG_MAX :: int where "LONG_MAX = 2 ^ 63 - 1"

subsection \<open>Python objects\<close>

datatype npy_dtype = NPY_UINT8 | NPY_BOOL | NPY_OTHER

text \<open>
  A numpy array: its element type, its shape and its elements in C order. For
  \<open>NPY_UINT8\<close> and \<open>NPY_BOOL\<close> the elements are the bytes themselves.
\<close>

record ndarray =
  nd_dtype :: npy_dtype
  nd_dims :: "nat list"
  nd_data :: "8 word list"

text \<open>
  The Python objects the entry points tell apart: integers (anything
  \<open>PyLong_AsLong\<close> converts), dictionaries with string keys, lists, numpy arrays,
  and every other object.
\<close>

datatype pyobj =
    PyLong int
  | PyDict "(string \<times> pyobj) list"
  | PyList "pyobj list"
  | PyArray ndarray
  | PyOther

datatype py_error =
    TypeError string
  | ValueError string
  | RuntimeError string
  | OverflowError
  | MemoryError
  | SystemError string

definition PyDict_GetItemString :: "(string \<times> pyobj) list \<Rightarrow> string \<Rightarrow> pyobj option" where
  \<comment> \<open>a borrowed reference, or NULL (without an exception) when the key is absent\<close>
  "PyDict_GetItemString d k = map_of d k"

definition PyLong_AsLong :: "pyobj \<Rightarrow> int \<times> bool" where
  \<comment> \<open>the value and whether an exception was set; on failure the value is \<open>-1\<close>\<close>
  "PyLong_AsLong obj =
     (case obj of
        PyLong n \<Rightarrow> if LONG_MIN \<le> n \<and> n \<le> LONG_MAX then (n, False) else (- 1, True)
      | _ \<Rightarrow> (- 1, True))"

definition parse_int_arg :: "int \<Rightarrow> pyobj option \<Rightarrow> py_error + int" where
  \<comment> \<open>the optional \<open>i\<close> unit of a \<open>PyArg_ParseTupleAndKeywords\<close> format\<close>
  "parse_int_arg dflt arg =
     (case arg of
        None \<Rightarrow> Inr dflt
      | Some (PyLong n) \<Rightarrow> if INT_MIN \<le> n \<and> n \<le> INT_MAX then Inr n else Inl OverflowError
      | Some _ \<Rightarrow> Inl (TypeError ''an integer is required''))"

subsection \<open>What the module takes from NBIS\<close>

record MINUTIA =
  m_x :: int
  m_y :: int
  m_direction :: int
  m_reliability :: real
  m_type :: int

text \<open>
  \<open>MINUTIAE\<close> holds \<open>num\<close> and \<open>list\<close>; it is modelled by the list of its \<open>num\<close>
  entries.
\<close>

type_synonym MINUTIAE = "MINUTIA list"

record xyt_struct =
  nrows :: int
  xcol :: "int list"
  ycol :: "int list"
  thetacol :: "int list"

text \<open>The outputs of \<open>lfs_detect_minutiae_V2\<close> that the module reads.\<close>

record detect_out =
  d_ret :: int
  d_minutiae :: MINUTIAE
  d_binarized :: "8 word list"
  d_bw :: int
  d_bh :: int

text \<open>The outputs of \<open>comp_nfiq\<close>: return code, \<open>nfiq_value\<close>, \<open>conf_value\<close>.\<close>

record nfiq_out =
  n_ret :: int
  n_nfiq :: int
  n_conf :: real

record nbis_lib =
  MAX_BOZORTH_MINUTIAE :: nat
  DEFAULT_BOZORTH_MINUTIAE :: int
  DEFAULT_PPI :: int
  RIDGE_ENDING :: int
  lfs_detect_minutiae_V2 :: "8 word list \<Rightarrow> int \<Rightarrow> int \<Rightarrow> detect_out"
  comp_nfiq :: "8 word list \<Rightarrow> int \<Rightarrow> int \<Rightarrow> int \<Rightarrow> int \<Rightarrow> nfiq_out"
  bz_match_score :: "int \<Rightarrow> xyt_struct \<Rightarrow> xyt_struct \<Rightarrow> int"

subsection \<open>\<open>py_to_image_data\<close>\<close>

record image_data =
  i_data :: "8 word list"
  i_width :: int
  i_height :: int
  i_depth :: int

definition PyArray_FROM_OTF_uint8 :: "ndarray \<Rightarrow> ndarray option" where
  \<comment> \<open>\<open>PyArray_FROM_OTF(obj, NPY_UINT8, NPY_ARRAY_IN_ARRAY)\<close>: a contiguous \<open>uint8\<close>
      array when the elements cast safely, NULL otherwise\<close>
  "PyArray_FROM_OTF_uint8 a =
     (if nd_dtype a = NPY_UINT8 \<or> nd_dtype a = NPY_BOOL
      then Some (a\<lparr>nd_dtype := NPY_UINT8\<rparr>) else None)"

definition copy_image ::
  "(nat \<Rightarrow> bool) \<Rightarrow> 8 word list \<Rightarrow> nat \<Rightarrow> nat \<Rightarrow> py_error + image_data" where
  \<comment> \<open>lines 66-68 (70-72) and 80-88: the product is taken in \<open>int\<close>, \<open>malloc_ok n\<close>
      says whether \<open>malloc(n)\<close> returns a block, \<open>memcpy\<close> copies \<open>data_size\<close> bytes
      of the array's buffer \<open>px\<close>\<close>
  "copy_image malloc_ok px d0 d1 =
     (let height = c_int (int d0);
          width = c_int (int d1);
          data_size = c_size_t (c_int (width * height))
      in if \<not> malloc_ok data_size then Inl MemoryError
         else Inr \<lparr>i_data = take data_size px,
                   i_width = width, i_height = height, i_depth = 8\<rparr>)"

definition py_to_image_data :: "(nat \<Rightarrow> bool) \<Rightarrow> pyobj \<Rightarrow> py_error + image_data" where
  "py_to_image_data malloc_ok image_obj =
     (case image_obj of
        PyArray a \<Rightarrow>
          (case PyArray_FROM_OTF_uint8 a of
             None \<Rightarrow> Inl (ValueError ''Failed to convert image to uint8 array'')
           | Some array \<Rightarrow>
               (case nd_dims array of
                  [d0, d1] \<Rightarrow> copy_image malloc_ok (nd_data array) d0 d1
                | [d0, d1, d2] \<Rightarrow>
                    if d2 = 1 then copy_image malloc_ok (nd_data array) d0 d1
                    else Inl (ValueError ''Image must be 2D grayscale'')
                | _ \<Rightarrow> Inl (ValueError ''Image must be 2D grayscale'')))
      | _ \<Rightarrow> Inl (TypeError ''Image must be a numpy array''))"

subsection \<open>\<open>nbis_extract_minutiae\<close>\<close>

record minutia_dict =
  md_x :: int
  md_y :: int
  md_direction :: int
  md_type :: int
  md_quality :: real
  md_type_str :: string

record extract_result =
  r_minutiae :: "minutia_dict list"
  r_count :: int
  r_binarized_dims :: "int list"
  r_binarized :: "8 word list"

definition build_minutia :: "nbis_lib \<Rightarrow> MINUTIA \<Rightarrow> minutia_dict" where
  "build_minutia lib m =
     \<lparr>md_x = m_x m, md_y = m_y m, md_direction = m_direction m, md_type = m_type m,
      md_quality = m_reliability m,
      md_type_str = (if m_type m = RIDGE_ENDING lib then ''ending'' else ''bifurcation'')\<rparr>"

definition nbis_extract_minutiae ::
  "nbis_lib \<Rightarrow> (nat \<Rightarrow> bool) \<Rightarrow> pyobj \<Rightarrow> pyobj option \<Rightarrow> py_error + extract_result" where
  "nbis_extract_minutiae lib malloc_ok image_obj ppi_arg =
     (case parse_int_arg (DEFAULT_PPI lib) ppi_arg of
        Inl e \<Rightarrow> Inl e
      | Inr ppi \<Rightarrow>
          (case py_to_image_data malloc_ok image_obj of
             Inl e \<Rightarrow> Inl e
           | Inr img \<Rightarrow>
               (let out = lfs_detect_minutiae_V2 lib (i_data img) (i_width img) (i_height img)
                in if d_ret out \<noteq> 0 then Inl (RuntimeError ''Minutiae detection failed'')
                   else Inr \<lparr>r_minutiae = map (build_minutia lib) (d_minutiae out),
                             r_count = int (length (d_minutiae out)),
                             r_binarized_dims = [d_bh out, d_bw out],
                             r_binarized =
                               take (c_size_t (c_int (d_bw out * d_bh out))) (d_binarized out)\<rparr>)))"

subsection \<open>\<open>minutiae_to_xyt\<close>\<close>

definition sizeof_xyt_struct :: "nbis_lib \<Rightarrow> nat" where
  \<comment> \<open>\<open>nrows\<close> and three \<open>int\<close> arrays of \<open>MAX_BOZORTH_MINUTIAE\<close> entries\<close>
  "sizeof_xyt_struct lib = 4 * (1 + 3 * MAX_BOZORTH_MINUTIAE lib)"

definition minutiae_to_xyt ::
  "nbis_lib \<Rightarrow> (nat \<Rightarrow> bool) \<Rightarrow> MINUTIAE \<Rightarrow> int \<Rightarrow> xyt_struct option" where
  "minutiae_to_xyt lib malloc_ok minutiae max_count =
     (if \<not> malloc_ok (sizeof_xyt_struct lib) then None
      else
        (let num = int (length minutiae);
             count = (if num < max_count then num else max_count);
             kept = take (nat count) minutiae
         in Some \<lparr>nrows = count, xcol = map m_x kept, ycol = map m_y kept,
                   thetacol = map m_direction kept\<rparr>))"

subsection \<open>\<open>nbis_match_fingerprints\<close>\<close>


subsection \<open>\<open>nbis_compute_nfiq\<close>\<close>

record nfiq_result =
  q_quality :: int
  q_confidence :: real
  q_return_code :: int

definition nbis_compute_nfiq ::
  "nbis_lib \<Rightarrow> (nat \<Rightarrow> bool) \<Rightarrow> pyobj \<Rightarrow> pyobj option \<Rightarrow> py_error + nfiq_result" where
  "nbis_compute_nfiq lib malloc_ok image_obj ppi_arg =
     (case parse_int_arg (DEFAULT_PPI lib) ppi_arg of
        Inl e \<Rightarrow> Inl e
      | Inr ppi \<Rightarrow>
          (case py_to_image_data malloc_ok image_obj of
             Inl e \<Rightarrow> Inl e
           | Inr img \<Rightarrow>
               (let out = comp_nfiq lib (i_data img) (i_width img) (i_height img)
                            (i_depth img) ppi
                in if n_ret out < 0 then Inl (RuntimeError ''NFIQ computation failed'')
                   else Inr \<lparr>q_quality = n_nfiq out, q_confidence = n_conf out,
                             q_return_code = n_ret out\<rparr>)))"

text \<open>
  The reading of the return code given at line 319: \<open>0\<close> is success, a positive code
  is an algorithm condition, a negative code is a system error.
\<close>

datatype nfiq_status = Success | AlgorithmicCondition | SystemFailure

definition status_of_return_code :: "int \<Rightarrow> nfiq_status" where
  "status_of_return_code ret =
     (if ret = 0 then Success else if 0 < ret then AlgorithmicCondition else SystemFailure)"

subsection \<open>\<open>nbis_match_xyt\<close>\<close>

text \<open>
  One pass of the parsing loops (lines 361-380, 383-402) over the first \<open>count\<close>
  items: the rows stored, and whether a \<open>PyLong_AsLong\<close> left an exception set.
\<close>

fun parse_minutiae :: "pyobj list \<Rightarrow> py_error + ((int \<times> int \<times> int) list \<times> bool)" where
  "parse_minutiae [] = Inr ([], False)"
| "parse_minutiae (item # rest) =
     (case item of
        PyDict d \<Rightarrow>
          (case (PyDict_GetItemString d ''x'', PyDict_GetItemString d ''y'',
                 PyDict_GetItemString d ''direction'') of
             (Some x_obj, Some y_obj, Some t_obj) \<Rightarrow>
               (let (xv, xe) = PyLong_AsLong x_obj;
                    (yv, ye) = PyLong_AsLong y_obj;
                    (tv, te) = PyLong_AsLong t_obj
                in case parse_minutiae rest of
                     Inl e \<Rightarrow> Inl e
                   | Inr (rows, pending) \<Rightarrow>
                       Inr ((c_int xv, c_int yv, c_int tv) # rows, xe \<or> ye \<or> te \<or> pending))
           | _ \<Rightarrow> Inl (ValueError ''Minutiae must have x, y, and direction''))
      | _ \<Rightarrow> Inl (TypeError ''Minutiae must be dictionaries''))"

definition xyt_of_rows :: "(int \<times> int \<times> int) list \<Rightarrow> xyt_struct" where
  "xyt_of_rows rows =
     \<lparr>nrows = int (length rows), xcol = map fst rows, ycol = map (fst \<circ> snd) rows,
      thetacol = map (snd \<circ> snd) rows\<rparr>"

definition nbis_match_xyt :: "nbis_lib \<Rightarrow> pyobj \<Rightarrow> pyobj \<Rightarrow> py_error + int" where
  "nbis_match_xyt lib probe_list gallery_list =
     (case probe_list of
        PyList probe \<Rightarrow>
          (case gallery_list of
             PyList gallery \<Rightarrow>
               (case parse_minutiae (take (MAX_BOZORTH_MINUTIAE lib) probe) of
                  Inl e \<Rightarrow> Inl e
                | Inr (probe_rows, probe_pending) \<Rightarrow>
                    (case parse_minutiae (take (MAX_BOZORTH_MINUTIAE lib) gallery) of
                       Inl e \<Rightarrow> Inl e
                     | Inr (gallery_rows, gallery_pending) \<Rightarrow>
                         (let score = bz_match_score lib (DEFAULT_BOZORTH_MINUTIAE lib)
                                        (xyt_of_rows probe_rows) (xyt_of_rows gallery_rows)
                          in if probe_pending \<or> gallery_pending
                             then Inl (SystemError ''returned a result with an exception set'')
                             else Inr score)))
           | _ \<Rightarrow> Inl (TypeError ''Both arguments must be lists of minutiae''))
      | _ \<Rightarrow> Inl (TypeError ''Both arguments must be lists of minutiae''))"

subsection \<open>The matcher of the specification\<close>

text \<open>
  Modelled from the spec: the matcher \<open>bz_match_score\<close> is compiled from
  \<open>nbis_src/bozorth3\<close>, which is not among the sources. The definitions of this
  subsection follow section 4.3 of the specification, step by step. The
  discretisation of a pair relation, the tolerances and the test on the implied
  rotation and translation are internal constants that the specification leaves
  open; they are the parameters \<open>match_params\<close>.
\<close>

type_synonym xyt_row = "int \<times> int \<times> int"

record 'r match_params =
  pair_relation :: "xyt_row \<Rightarrow> xyt_row \<Rightarrow> 'r"
  within_tolerance :: "'r \<Rightarrow> 'r \<Rightarrow> bool"
  transform_consistent :: "(xyt_row \<times> xyt_row) list \<Rightarrow> xyt_row \<times> xyt_row \<Rightarrow> bool"

text \<open>
  Modelled from the spec: step 1, the table of the relations between every ordered
  pair of the minutiae of one set.
\<close>

definition relation_table :: "'r match_params \<Rightarrow> xyt_row list \<Rightarrow> ((nat \<times> nat) \<times> 'r) list" where
  "relation_table ps rows =
     [((i, j), pair_relation ps (rows ! i) (rows ! j)).
        i \<leftarrow> [0..<length rows], j \<leftarrow> [0..<length rows], i \<noteq> j]"

text \<open>
  Modelled from the spec: step 2. A probe minutia and a gallery minutia are a
  candidate correspondence when their relation tables admit at least one
  compatible neighbour pairing; the number of such pairings is the local
  compatibility strength, and the candidates are traversed by descending strength,
  ties in index order.
\<close>

definition compatibility_strength ::
  "'r match_params \<Rightarrow> ((nat \<times> nat) \<times> 'r) list \<Rightarrow> ((nat \<times> nat) \<times> 'r) list \<Rightarrow> nat \<times> nat \<Rightarrow> nat" where
  "compatibility_strength ps ptable gtable c =
     length [(r, r'). ((i, j), r) \<leftarrow> ptable, i = fst c,
                      ((k, l), r') \<leftarrow> gtable, k = snd c, within_tolerance ps r r']"

definition candidate_correspondences ::
  "'r match_params \<Rightarrow> xyt_row list \<Rightarrow> xyt_row list \<Rightarrow> (nat \<times> nat) list" where
  "candidate_correspondences ps probe gallery =
     (let ptable = relation_table ps probe; gtable = relation_table ps gallery
      in rev (sort_key (compatibility_strength ps ptable gtable)
           (rev [(p, g). p \<leftarrow> [0..<length probe], g \<leftarrow> [0..<length gallery],
                         0 < compatibility_strength ps ptable gtable (p, g)])))"

text \<open>
  Modelled from the spec: step 3. Two correspondences are compatible when the
  relation between the two probe minutiae matches the relation between the two
  gallery minutiae within tolerance. A cluster grows from a seed by taking, in
  traversal order, every candidate that is compatible with all its members and
  keeps the implied transformation consistent; consistency is validated on at least
  two correspondences.
\<close>

definition correspondences_compatible ::
  "'r match_params \<Rightarrow> xyt_row list \<Rightarrow> xyt_row list \<Rightarrow> nat \<times> nat \<Rightarrow> nat \<times> nat \<Rightarrow> bool" where
  "correspondences_compatible ps probe gallery c1 c2 \<longleftrightarrow>
     fst c1 \<noteq> fst c2 \<and> snd c1 \<noteq> snd c2 \<and>
     within_tolerance ps (pair_relation ps (probe ! fst c1) (probe ! fst c2))
                         (pair_relation ps (gallery ! snd c1) (gallery ! snd c2))"

definition grow_cluster ::
  "'r match_params \<Rightarrow> xyt_row list \<Rightarrow> xyt_row list \<Rightarrow> (nat \<times> nat) list \<Rightarrow> nat \<times> nat
     \<Rightarrow> (nat \<times> nat) list" where
  "grow_cluster ps probe gallery cluster c =
     (if list_all (\<lambda>c'. correspondences_compatible ps probe gallery c' c) cluster
         \<and> transform_consistent ps (map (\<lambda>(p, g). (probe ! p, gallery ! g)) cluster)
              (probe ! fst c, gallery ! snd c)
      then cluster @ [c] else cluster)"

definition consistent_clusters ::
  "'r match_params \<Rightarrow> xyt_row list \<Rightarrow> xyt_row list \<Rightarrow> (nat \<times> nat) list list" where
  "consistent_clusters ps probe gallery =
     (let cands = candidate_correspondences ps probe gallery
      in filter (\<lambda>cluster. 2 \<le> length cluster)
           (map (\<lambda>seed. foldl (grow_cluster ps probe gallery) [seed] cands) cands))"

text \<open>Modelled from the spec: step 4, the score is the size of the largest consistent cluster.\<close>

definition match_score :: "'r match_params \<Rightarrow> xyt_row list \<Rightarrow> xyt_row list \<Rightarrow> nat" where
  "match_score ps probe gallery =
     fold max (map length (consistent_clusters ps probe gallery)) 0"

text \<open>
  Modelled from the spec: \<open>bz_match_score\<close> as the matcher of section 4.3 on the
  \<open>nrows\<close> rows of the two structures.
\<close>

definition xyt_rows :: "xyt_struct \<Rightarrow> xyt_row list" where
  "xyt_rows s = take (nat (nrows s)) (zip (xcol s) (zip (ycol s) (thetacol s)))"

definition bz_match_score_spec ::
  "'r match_params \<Rightarrow> int \<Rightarrow> xyt_struct \<Rightarrow> xyt_struct \<Rightarrow> int" where
  "bz_match_score_spec ps np pstruct gstruct =
     int (match_score ps (xyt_rows pstruct) (xyt_rows gstruct))"

subsection \<open>The binarizer of the specification\<close>

text \<open>
  Modelled from the spec: the detector \<open>lfs_detect_minutiae_V2\<close> is compiled from
  \<open>nbis_src/mindtct\<close>, which is not among the sources. Section 4.1 of the
  specification has the preprocessor derive block maps from the image and binarize
  it by oriented adaptive thresholding: a pixel is compared with a threshold that
  depends on the local orientation, not with one global threshold. The maps, the
  threshold, the scan for minutiae and the failure code are left open; they are the
  parameters \<open>detector_params\<close>.
\<close>

record 'm detector_params =
  ridge_maps :: "8 word list \<Rightarrow> int \<Rightarrow> int \<Rightarrow> 'm"
  local_threshold :: "'m \<Rightarrow> 8 word list \<Rightarrow> int \<Rightarrow> int \<Rightarrow> nat \<Rightarrow> 8 word"
  scan_minutiae :: "'m \<Rightarrow> 8 word list \<Rightarrow> int \<Rightarrow> int \<Rightarrow> MINUTIAE"
  failure_code :: "8 word list \<Rightarrow> int \<Rightarrow> int \<Rightarrow> int"

text \<open>
  Modelled from the spec: the binarized image has one value per source pixel, black
  (\<open>0\<close>) below the local threshold and white (\<open>255\<close>) otherwise.
\<close>

definition binarize_spec ::
  "'m detector_params \<Rightarrow> 'm \<Rightarrow> 8 word list \<Rightarrow> int \<Rightarrow> int \<Rightarrow> 8 word list" where
  "binarize_spec ps maps idata iw ih =
     map (\<lambda>i. if idata ! i < local_threshold ps maps idata iw ih i then 0 else 255)
       [0..<length idata]"

text \<open>
  Modelled from the spec: the detector returns its minutiae and the binarized image
  under the dimensions of the source.
\<close>

definition lfs_detect_minutiae_V2_spec ::
  "'m detector_params \<Rightarrow> 8 word list \<Rightarrow> int \<Rightarrow> int \<Rightarrow> detect_out" where
  "lfs_detect_minutiae_V2_spec ps idata iw ih =
     (let maps = ridge_maps ps idata iw ih;
          bin = binarize_spec ps maps idata iw ih
      in \<lparr>d_ret = failure_code ps idata iw ih,
          d_minutiae = scan_minutiae ps maps bin iw ih,
          d_binarized = bin, d_bw = iw, d_bh = ih\<rparr>)"

subsection \<open>The truncation rule of the specification\<close>

text \<open>
  The data model of the specification (section 3) truncates a set that exceeds the
  cap to the entries of highest reliability, ties broken by the original detection
  order. This definition follows those words, for comparison with
  \<open>minutiae_to_xyt\<close>: a stable sort by descending reliability, then the first \<open>n\<close>.
\<close>

definition keep_most_reliable :: "nat \<Rightarrow> MINUTIAE \<Rightarrow> MINUTIAE" where
  "keep_most_reliable n ms = take n (sort_key (\<lambda>m. - m_reliability m) ms)"

subsection \<open>Inputs and instances\<close>

text \<open>
  A grayscale image of height \<open>h\<close> and width \<open>w\<close> as the callers pass it: a \<open>uint8\<close>
  array of shape \<open>(h, w)\<close> or \<open>(h, w, 1)\<close> holding \<open>h * w\<close> pixels, small enough
  for the sizes to be C \<open>int\<close>s.
\<close>

definition grayscale_image :: "ndarray \<Rightarrow> nat \<Rightarrow> nat \<Rightarrow> bool" where
  "grayscale_image a h w \<longleftrightarrow>
     nd_dtype a = NPY_UINT8 \<and> (nd_dims a = [h, w] \<or> nd_dims a = [h, w, 1]) \<and>
     length (nd_data a) = h * w \<and> h < 2 ^ 31 \<and> w < 2 ^ 31 \<and> h * w < 2 ^ 31"

text \<open>
  A record of the direct-matching input is malformed when it is not a dictionary or
  lacks one of the keys \<open>x\<close>, \<open>y\<close>, \<open>direction\<close>.
\<close>

definition malformed :: "pyobj \<Rightarrow> bool" where
  "malformed item =
     (case item of
        PyDict d \<Rightarrow> map_of d ''x'' = None \<or> map_of d ''y'' = None \<or> map_of d ''direction'' = None
      | _ \<Rightarrow> True)"

text \<open>
  A minutia record as the direct-matching entry point expects it: a dictionary
  whose \<open>x\<close>, \<open>y\<close> and \<open>direction\<close> are integers that fit a C \<open>long\<close>.
\<close>

definition is_minutia_record :: "pyobj \<Rightarrow> bool" where
  "is_minutia_record item =
     (case item of
        PyDict d \<Rightarrow>
          (case (map_of d ''x'', map_of d ''y'', map_of d ''direction'') of
             (Some (PyLong x), Some (PyLong y), Some (PyLong t)) \<Rightarrow>
               LONG_MIN \<le> x \<and> x \<le> LONG_MAX \<and> LONG_MIN \<le> y \<and> y \<le> LONG_MAX \<and>
               LONG_MIN \<le> t \<and> t \<le> LONG_MAX
           | _ \<Rightarrow> False)
      | _ \<Rightarrow> False)"

text \<open>
  The row that the parsing loop of \<open>match_xyt\<close> stores for a minutia record: its
  \<open>x\<close>, \<open>y\<close> and \<open>direction\<close>, each cast to \<open>int\<close>.
\<close>

definition record_row :: "pyobj \<Rightarrow> int \<times> int \<times> int" where
  "record_row item =
     (case item of
        PyDict d \<Rightarrow>
          (case (map_of d ''x'', map_of d ''y'', map_of d ''direction'') of
             (Some (PyLong x), Some (PyLong y), Some (PyLong t)) \<Rightarrow> (c_int x, c_int y, c_int t)
           | _ \<Rightarrow> (0, 0, 0))
      | _ \<Rightarrow> (0, 0, 0))"

definition minutia_record :: "int \<Rightarrow> int \<Rightarrow> int \<Rightarrow> pyobj" where
  "minutia_record x y t = PyDict [(''x'', PyLong x), (''y'', PyLong y), (''direction'', PyLong t)]"

text \<open>The rows of a list of minutiae, as \<open>minutiae_to_xyt\<close> stores them.\<close>

definition xyt_of_minutiae :: "MINUTIAE \<Rightarrow> xyt_struct" where
  "xyt_of_minutiae ms =
     \<lparr>nrows = int (length ms), xcol = map m_x ms, ycol = map m_y ms,
      thetacol = map m_direction ms\<rparr>"

text \<open>
  An instance of \<open>nbis_lib\<close> on which the entry points can be evaluated: the
  constants as the NBIS headers set them, a detector that finds nothing and returns
  a blank binarized image, a quality scorer that reports its first algorithm
  condition with the worst class, and a matcher that scores \<open>0\<close>.
\<close>

definition example_nbis :: nbis_lib where
  "example_nbis =
     \<lparr>MAX_BOZORTH_MINUTIAE = 200, DEFAULT_BOZORTH_MINUTIAE = 150, DEFAULT_PPI = 500,
      RIDGE_ENDING = 1,
      lfs_detect_minutiae_V2 = (\<lambda>idata iw ih.
         \<lparr>d_ret = 0, d_minutiae = [], d_binarized = map (\<lambda>_. 255) idata,
          d_bw = iw, d_bh = ih\<rparr>),
      comp_nfiq = (\<lambda>idata iw ih id ippi. \<lparr>n_ret = 1, n_nfiq = 5, n_conf = 1\<rparr>),
      bz_match_score = (\<lambda>np pstruct gstruct. 0)\<rparr>"

text \<open>
  The same instance with a matcher that reports how many rows it was handed: a
  thousand times the probe's \<open>nrows\<close> plus the gallery's.
\<close>

definition row_counting_nbis :: nbis_lib where
  "row_counting_nbis =
     example_nbis\<lparr>bz_match_score := (\<lambda>np pstruct gstruct. 1000 * nrows pstruct + nrows gstruct)\<rparr>"

definition example_image :: "nat list \<Rightarrow> ndarray" where
  \<comment> \<open>four pixels under the given shape\<close>
  "example_image dims = \<lparr>nd_dtype = NPY_UINT8, nd_dims = dims, nd_data = [10, 200, 30, 40]\<rparr>"

text \<open>
  Tolerances on which the matcher of the specification can be evaluated: squared
  distance in bins of 64, direction difference modulo 32, agreement within one bin.
\<close>

definition example_params :: "(int \<times> int) match_params" where
  "example_params =
     \<lparr>pair_relation = (\<lambda>(x1, y1, t1) (x2, y2, t2).
        (((x2 - x1) * (x2 - x1) + (y2 - y1) * (y2 - y1)) div 64, (t2 - t1) mod 32)),
      within_tolerance = (\<lambda>(d, b) (d', b'). \<bar>d - d'\<bar> \<le> 1 \<and> (b - b') mod 32 \<in> {0, 1, 31}),
      transform_consistent = (\<lambda>cluster c. True)\<rparr>"

text \<open>Three minutiae in general position.\<close>

definition triangle :: "xyt_row list" where
  "triangle = [(10, 10, 0), (60, 10, 8), (10, 90, 16)]"

text \<open>
  A detector of the specification on which the entry point can be evaluated: the
  threshold 128 everywhere, no minutiae, no failure.
\<close>

definition example_detector :: "unit detector_params" where
  "example_detector =
     \<lparr>ridge_maps = (\<lambda>idata iw ih. ()),
      local_threshold = (\<lambda>maps idata iw ih i. 128),
      scan_minutiae = (\<lambda>maps bin iw ih. []),
      failure_code = (\<lambda>idata iw ih. 0)\<rparr>"

text \<open>
  Inputs one entry longer than the cap of \<open>example_nbis\<close>: 200 equal minutiae of
  reliability \<open>0.2\<close> followed by one of reliability \<open>0.9\<close>, and 200 well-formed
  records followed by an object that is not a dictionary.
\<close>

definition crowded_minutiae :: MINUTIAE where
  "crowded_minutiae =
     replicate 200 \<lparr>m_x = 10, m_y = 20, m_direction = 3, m_reliability = 0.2, m_type = 1\<rparr>
     @ [\<lparr>m_x = 30, m_y = 40, m_direction = 5, m_reliability = 0.9, m_type = 0\<rparr>]"

definition crowded_records :: "pyobj list" where
  "crowded_records = replicate 200 (minutia_record 10 20 3) @ [PyOther]"

section \<open>Integer conversions\<close>

lemma c_int_id: "- (2 ^ 31) \<le> v \<Longrightarrow> v < 2 ^ 31 \<Longrightarrow> c_int v = v"
  unfolding c_int_def by (simp add: int_word_sint)

lemma c_size_t_id: "0 \<le> v \<Longrightarrow> v < 2 ^ 64 \<Longrightarrow> c_size_t v = nat v"
  unfolding c_size_t_def by (simp add: unat_eq_nat_uint uint_word_of_int take_bit_int_eq_self)

lemma c_int_of_nat: "n < 2 ^ 31 \<Longrightarrow> c_int (int n) = int n"
  by (rule c_int_id) simp_all

lemma data_size_exact:
  assumes "h * w < 2 ^ 31"
  shows "c_size_t (c_int (int w * int h)) = h * w"
proof -
  define k where "k = int w * int h"
  have k0: "0 \<le> k" by (simp add: k_def)
  have "int (h * w) < int (2 ^ 31)"
    using assms by (simp only: of_nat_less_iff)
  then have k1: "k < 2 ^ 31" by (simp add: k_def mult.commute)
  have kn: "nat k = h * w" by (simp add: k_def nat_mult_distrib mult.commute)
  have "c_int k = k" using k0 k1 by (simp add: c_int_id)
  moreover have "c_size_t k = nat k" using k0 k1 by (simp add: c_size_t_id)
  ultimately show ?thesis using kn by (simp add: k_def)
qed

lemma py_to_image_data_grayscale:
  assumes "grayscale_image a h w" "malloc_ok (h * w)"
  shows "py_to_image_data malloc_ok (PyArray a)
           = Inr \<lparr>i_data = nd_data a, i_width = int w, i_height = int h, i_depth = 8\<rparr>"
proof -
  from assms(1) have dt: "nd_dtype a = NPY_UINT8"
    and dims: "nd_dims a = [h, w] \<or> nd_dims a = [h, w, 1]"
    and len: "length (nd_data a) = h * w"
    and b: "h < 2 ^ 31" "w < 2 ^ 31" "h * w < 2 ^ 31"
    by (simp_all add: grayscale_image_def)
  have copy: "copy_image malloc_ok (nd_data a) h w
           = Inr \<lparr>i_data = nd_data a, i_width = int w, i_height = int h, i_depth = 8\<rparr>"
    using assms(2) len b by (simp add: copy_image_def Let_def data_size_exact c_int_of_nat)
  from dims show ?thesis
  proof
    assume "nd_dims a = [h, w]"
    then show ?thesis using dt copy by (simp add: py_to_image_data_def PyArray_FROM_OTF_uint8_def)
  next
    assume "nd_dims a = [h, w, 1]"
    then show ?thesis using dt copy by (simp add: py_to_image_data_def PyArray_FROM_OTF_uint8_def)
  qed
qed

section \<open>Quality assessment\<close>

text \<open>
  C3. For a well-formed image (accepted \<open>ppi\<close>, pixel copy allocated),
  \<open>compute_nfiq\<close> returns a result whenever the return code of \<open>comp_nfiq\<close> is not
  negative: with code \<open>0\<close> the result carries the status Success, with a positive
  code it still carries the quality and confidence that \<open>comp_nfiq\<close> stored, under
  the status AlgorithmicCondition. The call fails, with no result, exactly when the
  return code is negative.
\<close>

theorem compute_nfiq_status:
  assumes "grayscale_image a h w" and "malloc_ok (h * w)"
    and "parse_int_arg (DEFAULT_PPI lib) ppi_arg = Inr ppi"
    and "out = comp_nfiq lib (nd_data a) (int w) (int h) 8 ppi"
    and "res = nbis_compute_nfiq lib malloc_ok (PyArray a) ppi_arg"
    and "r = \<lparr>q_quality = n_nfiq out, q_confidence = n_conf out, q_return_code = n_ret out\<rparr>"
  shows "(n_ret out = 0 \<longrightarrow>
            res = Inr r \<and> status_of_return_code (q_return_code r) = Success)
       \<and> (0 < n_ret out \<longrightarrow>
            res = Inr r \<and> status_of_return_code (q_return_code r) = AlgorithmicCondition)
       \<and> (n_ret out < 0 \<longrightarrow> res = Inl (RuntimeError ''NFIQ computation failed''))
       \<and> (isl res \<longleftrightarrow> n_ret out < 0)"
proof -
  have "res =
      (if n_ret out < 0 then Inl (RuntimeError ''NFIQ computation failed'') else Inr r)"
    using assms(3-6) py_to_image_data_grayscale [of a h w malloc_ok, OF assms(1,2)]
    by (simp add: nbis_compute_nfiq_def Let_def)
  then show ?thesis
    using assms(6) by (simp add: status_of_return_code_def)
qed

text \<open>
  The statement at a \<open>2 \<times> 2\<close> image on which the scorer reports condition \<open>1\<close>
  with class \<open>5\<close>.
\<close>

theorem compute_nfiq_status_witness:
  "grayscale_image (example_image [2, 2]) 2 2
   \<and> parse_int_arg (DEFAULT_PPI example_nbis) None = Inr 500
   \<and> n_ret (comp_nfiq example_nbis (nd_data (example_image [2, 2])) 2 2 8 500) = 1
   \<and> nbis_compute_nfiq example_nbis (\<lambda>n. True) (PyArray (example_image [2, 2])) None
       = Inr \<lparr>q_quality = 5, q_confidence = 1, q_return_code = 1\<rparr>
   \<and> status_of_return_code 1 = AlgorithmicCondition"
proof -
  have h1: "grayscale_image (example_image [2, 2]) 2 2"
    by (simp add: grayscale_image_def example_image_def)
  have h3: "parse_int_arg (DEFAULT_PPI example_nbis) None = Inr 500"
    by (simp add: parse_int_arg_def example_nbis_def)
  show ?thesis
    using h1 h3
      compute_nfiq_status [of "example_image [2, 2]" 2 2 "\<lambda>n. True" example_nbis None 500,
        OF h1 _ h3 refl refl refl]
    by (simp add: example_nbis_def)
qed

section \<open>Image conversion\<close>













section \<open>Minutiae extraction\<close>

text \<open>
  C9. \<open>extract_minutiae\<close> parses \<open>ppi\<close> and never passes it on: for every image
  object and any two \<open>ppi\<close> values that fit a C \<open>int\<close>, the results (minutiae list,
  count, binarized image, or the error) are identical, and equal to the result with
  \<open>ppi\<close> left out.
\<close>

theorem extract_minutiae_ppi_independent:
  assumes "INT_MIN \<le> p1" "p1 \<le> INT_MAX" "INT_MIN \<le> p2" "p2 \<le> INT_MAX"
  shows "nbis_extract_minutiae lib malloc_ok image_obj (Some (PyLong p1))
           = nbis_extract_minutiae lib malloc_ok image_obj (Some (PyLong p2))
         \<and> nbis_extract_minutiae lib malloc_ok image_obj (Some (PyLong p1))
           = nbis_extract_minutiae lib malloc_ok image_obj None"
  using assms by (simp add: nbis_extract_minutiae_def parse_int_arg_def)

text \<open>The statement at \<open>ppi = 500\<close> and \<open>ppi = 1000\<close>.\<close>

theorem extract_minutiae_ppi_independent_witness:
  "INT_MIN \<le> 500 \<and> 500 \<le> INT_MAX \<and> INT_MIN \<le> 1000 \<and> 1000 \<le> INT_MAX
   \<and> nbis_extract_minutiae example_nbis (\<lambda>n. True) (PyArray (example_image [2, 2]))
         (Some (PyLong 500))
       = nbis_extract_minutiae example_nbis (\<lambda>n. True) (PyArray (example_image [2, 2]))
         (Some (PyLong 1000))
   \<and> nbis_extract_minutiae example_nbis (\<lambda>n. True) (PyArray (example_image [2, 2]))
         (Some (PyLong 1000))
       = Inr \<lparr>r_minutiae = [], r_count = 0, r_binarized_dims = [2, 2],
              r_binarized = [255, 255, 255, 255]\<rparr>"
proof -
  have h: "INT_MIN \<le> 500" "500 \<le> INT_MAX" "INT_MIN \<le> 1000" "1000 \<le> INT_MAX"
    by (simp_all add: INT_MIN_def INT_MAX_def)
  have v: "nbis_extract_minutiae example_nbis (\<lambda>n. True) (PyArray (example_image [2, 2]))
         (Some (PyLong 1000))
       = Inr \<lparr>r_minutiae = [], r_count = 0, r_binarized_dims = [2, 2],
              r_binarized = [255, 255, 255, 255]\<rparr>"
    using h by (simp add: nbis_extract_minutiae_def parse_int_arg_def py_to_image_data_def
        PyArray_FROM_OTF_uint8_def copy_image_def example_image_def example_nbis_def
        c_int_def c_size_t_def Let_def)
  show ?thesis
    using h v extract_minutiae_ppi_independent [OF h, of example_nbis "\<lambda>n. True"
        "PyArray (example_image [2, 2])"]
    by simp
qed

section \<open>Direct matching: the parsing loops\<close>

lemma parse_minutiae_errors:
  "parse_minutiae items = Inl e \<Longrightarrow>
   e = TypeError ''Minutiae must be dictionaries''
   \<or> e = ValueError ''Minutiae must have x, y, and direction''"
proof (induction items arbitrary: e)
  case Nil
  then show ?case by simp
next
  case (Cons item rest)
  then show ?case
    by (auto simp add: Let_def split: pyobj.splits option.splits sum.splits prod.splits)
qed

lemma parse_minutiae_malformed:
  "list_ex malformed items \<Longrightarrow> isl (parse_minutiae items)"
proof (induction items)
  case Nil
  then show ?case by simp
next
  case (Cons item rest)
  show ?case
  proof (cases "malformed item")
    case True
    then show ?thesis
      by (auto simp add: malformed_def PyDict_GetItemString_def
          split: pyobj.splits option.splits)
  next
    case False
    with Cons have "isl (parse_minutiae rest)" by simp
    then obtain e where "parse_minutiae rest = Inl e" by (cases "parse_minutiae rest") auto
    then show ?thesis
      by (auto simp add: Let_def split: pyobj.splits option.splits sum.splits prod.splits)
  qed
qed

lemma parse_minutiae_replicate_record:
  assumes "LONG_MIN \<le> x" "x \<le> LONG_MAX" "LONG_MIN \<le> y" "y \<le> LONG_MAX"
    "LONG_MIN \<le> t" "t \<le> LONG_MAX"
  shows "parse_minutiae (replicate n (minutia_record x y t))
           = Inr (replicate n (c_int x, c_int y, c_int t), False)"
  using assms
  by (induction n) (simp_all add: minutia_record_def PyDict_GetItemString_def PyLong_AsLong_def)

lemma match_xyt_error_cases:
  "nbis_match_xyt lib (PyList probe) (PyList gallery) = Inl e \<Longrightarrow>
   e = TypeError ''Minutiae must be dictionaries''
   \<or> e = ValueError ''Minutiae must have x, y, and direction''
   \<or> e = SystemError ''returned a result with an exception set''"
  by (auto simp add: nbis_match_xyt_def Let_def split: sum.splits prod.splits if_splits
      dest: parse_minutiae_errors)

text \<open>
  C6, as the code has it. When a record among the first \<open>MAX_BOZORTH_MINUTIAE\<close>
  entries of the probe list or of the gallery list is malformed (not a dictionary,
  or without one of the keys \<open>x\<close>, \<open>y\<close>, \<open>direction\<close>), \<open>match_xyt\<close> raises
  \<open>TypeError\<close> or \<open>ValueError\<close> and returns no score.
\<close>

theorem match_xyt_malformed_within_cap:
  assumes "list_ex malformed
             (take (MAX_BOZORTH_MINUTIAE lib) probe @ take (MAX_BOZORTH_MINUTIAE lib) gallery)"
  shows "nbis_match_xyt lib (PyList probe) (PyList gallery)
           = Inl (TypeError ''Minutiae must be dictionaries'')
       \<or> nbis_match_xyt lib (PyList probe) (PyList gallery)
           = Inl (ValueError ''Minutiae must have x, y, and direction'')"
proof -
  let ?p = "parse_minutiae (take (MAX_BOZORTH_MINUTIAE lib) probe)"
  let ?g = "parse_minutiae (take (MAX_BOZORTH_MINUTIAE lib) gallery)"
  have "isl ?p \<or> isl ?g"
    using assms parse_minutiae_malformed by auto
  then have "\<exists>e. nbis_match_xyt lib (PyList probe) (PyList gallery) = Inl e
      \<and> (?p = Inl e \<or> ?g = Inl e)"
    by (cases ?p; cases ?g) (auto simp add: nbis_match_xyt_def)
  then obtain e where res: "nbis_match_xyt lib (PyList probe) (PyList gallery) = Inl e"
    and src: "?p = Inl e \<or> ?g = Inl e" by blast
  from src have "e = TypeError ''Minutiae must be dictionaries''
      \<or> e = ValueError ''Minutiae must have x, y, and direction''"
    by (auto dest: parse_minutiae_errors)
  with res show ?thesis by auto
qed

text \<open>The statement at a probe list whose second record is not a dictionary.\<close>

theorem match_xyt_malformed_within_cap_witness:
  "list_ex malformed
     (take (MAX_BOZORTH_MINUTIAE example_nbis) [minutia_record 10 20 3, PyOther]
      @ take (MAX_BOZORTH_MINUTIAE example_nbis) [])
   \<and> nbis_match_xyt example_nbis (PyList [minutia_record 10 20 3, PyOther]) (PyList [])
       = Inl (TypeError ''Minutiae must be dictionaries'')"
proof -
  have h: "list_ex malformed
     (take (MAX_BOZORTH_MINUTIAE example_nbis) [minutia_record 10 20 3, PyOther]
      @ take (MAX_BOZORTH_MINUTIAE example_nbis) [])"
    by (simp add: example_nbis_def malformed_def minutia_record_def)
  show ?thesis
    using h match_xyt_malformed_within_cap [OF h]
    by (simp add: nbis_match_xyt_def example_nbis_def minutia_record_def
        PyDict_GetItemString_def PyLong_AsLong_def LONG_MIN_def LONG_MAX_def)
qed

text \<open>
  Records beyond the cap are never inspected: whatever follows
  \<open>MAX_BOZORTH_MINUTIAE\<close> well-formed records, the matcher is called and its score
  returned.
\<close>

lemma match_xyt_beyond_cap:
  assumes "LONG_MIN \<le> x" "x \<le> LONG_MAX" "LONG_MIN \<le> y" "y \<le> LONG_MAX"
    "LONG_MIN \<le> t" "t \<le> LONG_MAX"
  shows "nbis_match_xyt lib
           (PyList (replicate (MAX_BOZORTH_MINUTIAE lib) (minutia_record x y t) @ extra))
           (PyList [])
         = Inr (bz_match_score lib (DEFAULT_BOZORTH_MINUTIAE lib)
                  (xyt_of_rows (replicate (MAX_BOZORTH_MINUTIAE lib) (c_int x, c_int y, c_int t)))
                  (xyt_of_rows []))"
  using assms by (simp add: nbis_match_xyt_def parse_minutiae_replicate_record)

text \<open>
  C6 as stated fails: in \<open>crowded_records\<close> the record at index 200 is not a
  dictionary, and \<open>match_xyt\<close> raises nothing and returns the matcher's score.
\<close>

theorem match_xyt_malformed_counterexample:
  "list_ex malformed crowded_records
   \<and> nbis_match_xyt example_nbis (PyList crowded_records) (PyList []) = Inr 0"
proof -
  have "list_ex malformed crowded_records"
    by (simp add: crowded_records_def malformed_def)
  moreover have "nbis_match_xyt example_nbis
           (PyList (replicate (MAX_BOZORTH_MINUTIAE example_nbis) (minutia_record 10 20 3)
                    @ [PyOther]))
           (PyList []) = Inr 0"
    by (subst match_xyt_beyond_cap)
       (simp_all add: LONG_MIN_def LONG_MAX_def example_nbis_def)
  moreover have "MAX_BOZORTH_MINUTIAE example_nbis = 200"
    by (simp add: example_nbis_def)
  ultimately show ?thesis
    by (simp add: crowded_records_def)
qed

section \<open>Truncation to the cap\<close>

lemma minutiae_to_xyt_take:
  assumes "malloc_ok (sizeof_xyt_struct lib)" and "n < length minutiae"
  shows "minutiae_to_xyt lib malloc_ok minutiae (int n) = Some (xyt_of_minutiae (take n minutiae))"
  using assms by (simp add: minutiae_to_xyt_def xyt_of_minutiae_def Let_def)

lemma match_xyt_take_probe:
  "nbis_match_xyt lib (PyList probe) gallery_list
     = nbis_match_xyt lib (PyList (take (MAX_BOZORTH_MINUTIAE lib) probe)) gallery_list"
  by (cases gallery_list) (simp_all add: nbis_match_xyt_def)

lemma match_xyt_take_gallery:
  "nbis_match_xyt lib probe_list (PyList gallery)
     = nbis_match_xyt lib probe_list (PyList (take (MAX_BOZORTH_MINUTIAE lib) gallery))"
  by (cases probe_list) (auto simp add: nbis_match_xyt_def split: sum.splits prod.splits)

lemma insort_key_replicate:
  "insort_key f a (replicate n a) = replicate (Suc n) a"
  by (cases n) simp_all

lemma sort_key_replicate_snoc:
  "f b < f a \<Longrightarrow> sort_key f (replicate n a @ [b]) = b # replicate n a"
  for f :: "'a \<Rightarrow> real"
proof (induction n)
  case 0
  then show ?case by simp
next
  case (Suc n)
  then show ?case by (simp add: insort_key_replicate replicate_app_Cons_same)
qed

text \<open>
  Whatever the cap \<open>n\<close>: of \<open>n\<close> equal minutiae followed by a more reliable one,
  \<open>minutiae_to_xyt\<close> keeps the \<open>n\<close> equal ones, and the rule of the specification
  keeps the more reliable one first.
\<close>

lemma truncation_drops_most_reliable:
  assumes "m_reliability lo < m_reliability hi" and "0 < n"
    and "malloc_ok (sizeof_xyt_struct lib)"
  shows "minutiae_to_xyt lib malloc_ok (replicate n lo @ [hi]) (int n)
           = Some (xyt_of_minutiae (replicate n lo))"
    and "keep_most_reliable n (replicate n lo @ [hi]) = hi # replicate (n - 1) lo"
proof -
  show "minutiae_to_xyt lib malloc_ok (replicate n lo @ [hi]) (int n)
           = Some (xyt_of_minutiae (replicate n lo))"
    using minutiae_to_xyt_take [of malloc_ok lib n "replicate n lo @ [hi]"] assms(3)
    by simp
  have s: "sort_key (\<lambda>m. - m_reliability m) (replicate n lo @ [hi]) = hi # replicate n lo"
    by (rule sort_key_replicate_snoc) (simp add: assms(1))
  obtain k where k: "n = Suc k" using assms(2) by (cases n) simp_all
  have "take k (replicate (Suc k) lo) = replicate k lo" by (simp only: take_replicate) simp
  then have "take n (hi # replicate n lo) = hi # replicate (n - 1) lo"
    unfolding k by simp
  then show "keep_most_reliable n (replicate n lo @ [hi]) = hi # replicate (n - 1) lo"
    by (simp only: keep_most_reliable_def s)
qed

text \<open>
  C2 as stated fails: of the 201 entries of \<open>crowded_minutiae\<close> the last one has
  the highest reliability. \<open>minutiae_to_xyt\<close> keeps the first 200 and drops it; the
  rule of the specification keeps it.
\<close>

theorem truncation_reliability_counterexample:
  "length crowded_minutiae = 201
   \<and> minutiae_to_xyt example_nbis (\<lambda>n. True) crowded_minutiae
        (int (MAX_BOZORTH_MINUTIAE example_nbis))
       = Some \<lparr>nrows = 200, xcol = replicate 200 10, ycol = replicate 200 20,
               thetacol = replicate 200 3\<rparr>
   \<and> xyt_of_minutiae (keep_most_reliable (MAX_BOZORTH_MINUTIAE example_nbis) crowded_minutiae)
       = \<lparr>nrows = 200, xcol = 30 # replicate 199 10, ycol = 40 # replicate 199 20,
          thetacol = 5 # replicate 199 3\<rparr>
   \<and> minutiae_to_xyt example_nbis (\<lambda>n. True) crowded_minutiae
        (int (MAX_BOZORTH_MINUTIAE example_nbis))
       \<noteq> Some (xyt_of_minutiae
                 (keep_most_reliable (MAX_BOZORTH_MINUTIAE example_nbis) crowded_minutiae))"
proof -
  let ?lo = "\<lparr>m_x = 10, m_y = 20, m_direction = 3, m_reliability = 0.2, m_type = 1\<rparr>"
  let ?hi = "\<lparr>m_x = 30, m_y = 40, m_direction = 5, m_reliability = 0.9, m_type = 0\<rparr>"
  have cap: "MAX_BOZORTH_MINUTIAE example_nbis = 200" by (simp add: example_nbis_def)
  have len: "length crowded_minutiae = 201" by (simp add: crowded_minutiae_def)
  have code: "minutiae_to_xyt example_nbis (\<lambda>n. True) crowded_minutiae 200
       = Some (xyt_of_minutiae (take 200 crowded_minutiae))"
    using minutiae_to_xyt_take [of "\<lambda>n. True" example_nbis 200 crowded_minutiae]
    by (simp add: len)
  have t: "take 200 crowded_minutiae = replicate 200 ?lo"
    by (simp add: crowded_minutiae_def)
  have s: "sort_key (\<lambda>m. - m_reliability m) crowded_minutiae = ?hi # replicate 200 ?lo"
    unfolding crowded_minutiae_def by (rule sort_key_replicate_snoc) simp
  have k: "keep_most_reliable 200 crowded_minutiae = ?hi # replicate 199 ?lo"
    by (simp add: keep_most_reliable_def s)
  have r: "replicate 200 (10::int) \<noteq> 30 # replicate 199 10"
  proof
    assume "replicate 200 (10::int) = 30 # replicate 199 10"
    then have "hd (replicate 200 (10::int)) = hd (30 # replicate 199 10)" by simp
    then show False by simp
  qed
  show ?thesis
    using r by (simp add: cap len code t k xyt_of_minutiae_def)
qed

text \<open>
  On well-formed records the parsing loop stores one row per record and leaves no
  exception behind, so \<open>match_xyt\<close> hands the matcher the rows of the first
  \<open>MAX_BOZORTH_MINUTIAE\<close> records of each list.
\<close>

lemma parse_minutiae_rows:
  "list_all is_minutia_record items \<Longrightarrow>
   parse_minutiae items = Inr (map record_row items, False)"
proof (induction items)
  case Nil
  then show ?case by simp
next
  case (Cons item rest)
  then have r: "parse_minutiae rest = Inr (map record_row rest, False)" by simp
  from Cons.prems have "is_minutia_record item" by simp
  then obtain d x y t where item: "item = PyDict d"
    and d: "map_of d ''x'' = Some (PyLong x)" "map_of d ''y'' = Some (PyLong y)"
      "map_of d ''direction'' = Some (PyLong t)"
    and b: "LONG_MIN \<le> x" "x \<le> LONG_MAX" "LONG_MIN \<le> y" "y \<le> LONG_MAX"
      "LONG_MIN \<le> t" "t \<le> LONG_MAX"
    by (auto simp add: is_minutia_record_def split: pyobj.splits option.splits)
  show ?case
    using r by (simp add: item d b PyDict_GetItemString_def PyLong_AsLong_def record_row_def)
qed

lemma match_xyt_rows:
  assumes "list_all is_minutia_record (take (MAX_BOZORTH_MINUTIAE lib) probe)"
    and "list_all is_minutia_record (take (MAX_BOZORTH_MINUTIAE lib) gallery)"
  shows "nbis_match_xyt lib (PyList probe) (PyList gallery)
           = Inr (bz_match_score lib (DEFAULT_BOZORTH_MINUTIAE lib)
                    (xyt_of_rows (map record_row (take (MAX_BOZORTH_MINUTIAE lib) probe)))
                    (xyt_of_rows (map record_row (take (MAX_BOZORTH_MINUTIAE lib) gallery))))"
  by (simp add: nbis_match_xyt_def parse_minutiae_rows [OF assms(1)]
      parse_minutiae_rows [OF assms(2)])

text \<open>
  C2, as the code has it. A list of more than \<open>MAX_BOZORTH_MINUTIAE\<close> entries on the
  matching path is cut to exactly that many entries, the first ones in list order
  (reliability is not consulted). \<open>minutiae_to_xyt\<close> stores the rows of the prefix
  with \<open>nrows\<close> equal to the cap. \<open>match_xyt\<close>, in either argument position, raises
  nothing once the records of the prefix are well-formed, whatever follows them, and
  returns the score of the matcher on the structure \<open>kept\<close>, which holds exactly the
  rows of the first \<open>MAX_BOZORTH_MINUTIAE\<close> records; on any arguments it answers as it
  does on the prefix.
\<close>

theorem truncation_keeps_first_entries:
  assumes "MAX_BOZORTH_MINUTIAE lib < length minutiae"
    and "malloc_ok (sizeof_xyt_struct lib)"
    and "MAX_BOZORTH_MINUTIAE lib < length records"
    and "list_all is_minutia_record (take (MAX_BOZORTH_MINUTIAE lib) records)"
    and "list_all is_minutia_record (take (MAX_BOZORTH_MINUTIAE lib) others)"
    and "kept = xyt_of_rows (map record_row (take (MAX_BOZORTH_MINUTIAE lib) records))"
    and "rest = xyt_of_rows (map record_row (take (MAX_BOZORTH_MINUTIAE lib) others))"
  shows "minutiae_to_xyt lib malloc_ok minutiae (int (MAX_BOZORTH_MINUTIAE lib))
           = Some (xyt_of_minutiae (take (MAX_BOZORTH_MINUTIAE lib) minutiae))
       \<and> nrows (xyt_of_minutiae (take (MAX_BOZORTH_MINUTIAE lib) minutiae))
           = int (MAX_BOZORTH_MINUTIAE lib)
       \<and> nbis_match_xyt lib (PyList records) (PyList others)
           = Inr (bz_match_score lib (DEFAULT_BOZORTH_MINUTIAE lib) kept rest)
       \<and> nbis_match_xyt lib (PyList others) (PyList records)
           = Inr (bz_match_score lib (DEFAULT_BOZORTH_MINUTIAE lib) rest kept)
       \<and> nrows kept = int (MAX_BOZORTH_MINUTIAE lib)
       \<and> length (xcol kept) = MAX_BOZORTH_MINUTIAE lib
       \<and> nbis_match_xyt lib (PyList records) other
           = nbis_match_xyt lib (PyList (take (MAX_BOZORTH_MINUTIAE lib) records)) other
       \<and> nbis_match_xyt lib other (PyList records)
           = nbis_match_xyt lib other (PyList (take (MAX_BOZORTH_MINUTIAE lib) records))"
proof -
  have "nrows (xyt_of_minutiae (take (MAX_BOZORTH_MINUTIAE lib) minutiae))
           = int (MAX_BOZORTH_MINUTIAE lib)"
    using assms(1) by (simp add: xyt_of_minutiae_def)
  moreover have "nrows kept = int (MAX_BOZORTH_MINUTIAE lib)"
    "length (xcol kept) = MAX_BOZORTH_MINUTIAE lib"
    using assms(3) by (simp_all add: assms(6) xyt_of_rows_def)
  moreover have "nbis_match_xyt lib (PyList records) (PyList others)
           = Inr (bz_match_score lib (DEFAULT_BOZORTH_MINUTIAE lib) kept rest)"
    unfolding assms(6,7) using assms(4,5) by (rule match_xyt_rows)
  moreover have "nbis_match_xyt lib (PyList others) (PyList records)
           = Inr (bz_match_score lib (DEFAULT_BOZORTH_MINUTIAE lib) rest kept)"
    unfolding assms(6,7) using assms(5,4) by (rule match_xyt_rows)
  ultimately show ?thesis
    using minutiae_to_xyt_take [of malloc_ok lib "MAX_BOZORTH_MINUTIAE lib" minutiae, OF assms(2,1)]
      match_xyt_take_probe [of lib records other] match_xyt_take_gallery [of lib other records]
    by simp
qed

text \<open>
  The statement at the two inputs of 201 entries, with the matcher that reports
  the rows it was handed: 200 of the 201 records, against one record.
\<close>

theorem truncation_keeps_first_entries_witness:
  "MAX_BOZORTH_MINUTIAE row_counting_nbis < length crowded_minutiae
   \<and> MAX_BOZORTH_MINUTIAE row_counting_nbis < length crowded_records
   \<and> list_all is_minutia_record (take (MAX_BOZORTH_MINUTIAE row_counting_nbis) crowded_records)
   \<and> list_all is_minutia_record
       (take (MAX_BOZORTH_MINUTIAE row_counting_nbis) [minutia_record 1 2 3])
   \<and> minutiae_to_xyt row_counting_nbis (\<lambda>n. True) crowded_minutiae 200
       = Some \<lparr>nrows = 200, xcol = replicate 200 10, ycol = replicate 200 20,
               thetacol = replicate 200 3\<rparr>
   \<and> nbis_match_xyt row_counting_nbis (PyList crowded_records) (PyList [minutia_record 1 2 3])
       = Inr 200001
   \<and> nbis_match_xyt row_counting_nbis (PyList [minutia_record 1 2 3]) (PyList crowded_records)
       = Inr 1200"
proof -
  have cap: "MAX_BOZORTH_MINUTIAE row_counting_nbis = 200"
    by (simp add: row_counting_nbis_def example_nbis_def)
  have bz: "bz_match_score row_counting_nbis
      = (\<lambda>np pstruct gstruct. 1000 * nrows pstruct + nrows gstruct)"
    by (simp add: row_counting_nbis_def)
  have rec: "is_minutia_record (minutia_record 10 20 3)" "is_minutia_record (minutia_record 1 2 3)"
    by (simp_all add: is_minutia_record_def minutia_record_def LONG_MIN_def LONG_MAX_def)
  have t: "take 200 crowded_minutiae
      = replicate 200 \<lparr>m_x = 10, m_y = 20, m_direction = 3, m_reliability = 0.2, m_type = 1\<rparr>"
    by (simp add: crowded_minutiae_def)
  have t': "take 200 crowded_records = replicate 200 (minutia_record 10 20 3)"
    by (simp add: crowded_records_def)
  have h1: "MAX_BOZORTH_MINUTIAE row_counting_nbis < length crowded_minutiae"
    by (simp add: cap crowded_minutiae_def)
  have h2: "(\<lambda>n. True) (sizeof_xyt_struct row_counting_nbis)" by simp
  have h3: "MAX_BOZORTH_MINUTIAE row_counting_nbis < length crowded_records"
    by (simp add: cap crowded_records_def)
  have h4: "list_all is_minutia_record
      (take (MAX_BOZORTH_MINUTIAE row_counting_nbis) crowded_records)"
    by (simp add: cap t' rec list_all_iff)
  have h5: "list_all is_minutia_record
      (take (MAX_BOZORTH_MINUTIAE row_counting_nbis) [minutia_record 1 2 3])"
    by (simp add: cap rec)
  show ?thesis
    using h1 h3 h4 h5
      truncation_keeps_first_entries [of row_counting_nbis crowded_minutiae "\<lambda>n. True"
        crowded_records "[minutia_record 1 2 3]" _ _ "PyList []", OF h1 h2 h3 h4 h5 refl refl]
    by (simp add: cap bz t t' xyt_of_minutiae_def xyt_of_rows_def)
qed

section \<open>Matching short sets\<close>

lemma concat_map_Nil: "concat (map (\<lambda>x. []) xs) = []"
  by (induction xs) simp_all

lemma relation_table_Nil: "relation_table ps [] = []"
  by (simp add: relation_table_def)

lemma relation_table_single: "relation_table ps [a] = []"
  by (simp add: relation_table_def)

lemma compatibility_strength_no_probe: "compatibility_strength ps [] gtable c = 0"
  by (simp add: compatibility_strength_def)

lemma compatibility_strength_no_gallery: "compatibility_strength ps ptable [] c = 0"
  by (auto simp add: compatibility_strength_def split: prod.splits)

lemma no_candidates:
  assumes "relation_table ps probe = [] \<or> relation_table ps gallery = []"
  shows "candidate_correspondences ps probe gallery = []"
  using assms
  by (auto simp add: candidate_correspondences_def compatibility_strength_no_probe
      compatibility_strength_no_gallery concat_map_Nil)

lemma match_score_no_relations:
  assumes "relation_table ps probe = [] \<or> relation_table ps gallery = []"
  shows "match_score ps probe gallery = 0"
  by (simp add: match_score_def consistent_clusters_def no_candidates [OF assms])

lemma match_score_short:
  assumes "length probe \<le> 1 \<or> length gallery \<le> 1"
  shows "match_score ps probe gallery = 0"
proof -
  have short: "relation_table ps rows = []" if "length rows \<le> 1" for rows
  proof (cases rows)
    case Nil
    then show ?thesis by (simp add: relation_table_Nil)
  next
    case (Cons a rest)
    with that have "rows = [a]" by simp
    then show ?thesis by (simp add: relation_table_single)
  qed
  from assms short have "relation_table ps probe = [] \<or> relation_table ps gallery = []"
    by blast
  then show ?thesis by (rule match_score_no_relations)
qed

lemma xyt_rows_of_rows: "xyt_rows (xyt_of_rows rows) = rows"
proof -
  have "zip (map fst rows) (zip (map (fst \<circ> snd) rows) (map (snd \<circ> snd) rows)) = rows"
    by (induction rows) auto
  then show ?thesis by (simp add: xyt_rows_def xyt_of_rows_def)
qed

lemma parse_minutiae_records:
  "list_all is_minutia_record items \<Longrightarrow>
   \<exists>rows. parse_minutiae items = Inr (rows, False) \<and> length rows = length items"
proof (induction items)
  case Nil
  then show ?case by simp
next
  case (Cons item rest)
  then obtain rows where r: "parse_minutiae rest = Inr (rows, False)" "length rows = length rest"
    by auto
  from Cons.prems have "is_minutia_record item" by simp
  then obtain d x y t where item: "item = PyDict d"
    and d: "map_of d ''x'' = Some (PyLong x)" "map_of d ''y'' = Some (PyLong y)"
      "map_of d ''direction'' = Some (PyLong t)"
    and b: "LONG_MIN \<le> x" "x \<le> LONG_MAX" "LONG_MIN \<le> y" "y \<le> LONG_MAX"
      "LONG_MIN \<le> t" "t \<le> LONG_MAX"
    by (auto simp add: is_minutia_record_def split: pyobj.splits option.splits)
  show ?case
    using r by (simp add: item d b PyDict_GetItemString_def PyLong_AsLong_def)
qed

lemma match_xyt_records:
  assumes "list_all is_minutia_record probe" and "list_all is_minutia_record gallery"
  shows "\<exists>prows grows.
           length prows = min (MAX_BOZORTH_MINUTIAE lib) (length probe)
         \<and> length grows = min (MAX_BOZORTH_MINUTIAE lib) (length gallery)
         \<and> nbis_match_xyt (lib\<lparr>bz_match_score := bz_match_score_spec ps\<rparr>)
               (PyList probe) (PyList gallery)
             = Inr (int (match_score ps prows grows))"
proof -
  let ?n = "MAX_BOZORTH_MINUTIAE lib"
  have "list_all is_minutia_record (take ?n probe)"
    using assms(1) by (auto simp add: list_all_iff dest: in_set_takeD)
  from parse_minutiae_records [OF this] obtain prows
    where p: "parse_minutiae (take ?n probe) = Inr (prows, False)"
      "length prows = length (take ?n probe)" by blast
  have "list_all is_minutia_record (take ?n gallery)"
    using assms(2) by (auto simp add: list_all_iff dest: in_set_takeD)
  from parse_minutiae_records [OF this] obtain grows
    where g: "parse_minutiae (take ?n gallery) = Inr (grows, False)"
      "length grows = length (take ?n gallery)" by blast
  have "nbis_match_xyt (lib\<lparr>bz_match_score := bz_match_score_spec ps\<rparr>)
               (PyList probe) (PyList gallery)
             = Inr (int (match_score ps prows grows))"
    using p(1) g(1) by (simp add: nbis_match_xyt_def bz_match_score_spec_def xyt_rows_of_rows)
  with p(2) g(2) show ?thesis by (auto simp add: min.commute)
qed

text \<open>
  C1. With the matcher of the specification in place of \<open>bz_match_score\<close>, for every
  list \<open>S\<close> of minutia records, \<open>match_xyt\<close> scores \<open>0\<close> when the probe list or the
  gallery list is empty, and scores \<open>0\<close> on every pair of single-record lists,
  whatever their coordinates and directions and whatever the tolerances.
\<close>

theorem match_xyt_empty_or_single:
  assumes "list_all is_minutia_record S" and "is_minutia_record a" and "is_minutia_record b"
    and "matcher = lib\<lparr>bz_match_score := bz_match_score_spec ps\<rparr>"
  shows "nbis_match_xyt matcher (PyList []) (PyList S) = Inr 0
       \<and> nbis_match_xyt matcher (PyList S) (PyList []) = Inr 0
       \<and> nbis_match_xyt matcher (PyList [a]) (PyList [b]) = Inr 0"
proof -
  have e: "list_all is_minutia_record []" by simp
  have "nbis_match_xyt matcher (PyList []) (PyList S) = Inr 0"
    using match_xyt_records [OF e assms(1), of lib ps] assms(4)
    by (auto simp add: match_score_short)
  moreover have "nbis_match_xyt matcher (PyList S) (PyList []) = Inr 0"
    using match_xyt_records [OF assms(1) e, of lib ps] assms(4)
    by (auto simp add: match_score_short)
  moreover have "nbis_match_xyt matcher (PyList [a]) (PyList [b]) = Inr 0"
  proof -
    have "list_all is_minutia_record [a]" "list_all is_minutia_record [b]"
      using assms(2,3) by simp_all
    from match_xyt_records [OF this, of lib ps] show ?thesis
      using assms(4) by (auto simp add: match_score_short)
  qed
  ultimately show ?thesis by simp
qed

text \<open>
  The statement at a set of two records and at two single records that agree in
  direction and nearly in position.
\<close>

theorem match_xyt_empty_or_single_witness:
  "list_all is_minutia_record [minutia_record 10 10 0, minutia_record 60 10 8]
   \<and> is_minutia_record (minutia_record 10 10 0) \<and> is_minutia_record (minutia_record 12 9 0)
   \<and> nbis_match_xyt (example_nbis\<lparr>bz_match_score := bz_match_score_spec example_params\<rparr>)
         (PyList []) (PyList [minutia_record 10 10 0, minutia_record 60 10 8]) = Inr 0
   \<and> nbis_match_xyt (example_nbis\<lparr>bz_match_score := bz_match_score_spec example_params\<rparr>)
         (PyList [minutia_record 10 10 0, minutia_record 60 10 8]) (PyList []) = Inr 0
   \<and> nbis_match_xyt (example_nbis\<lparr>bz_match_score := bz_match_score_spec example_params\<rparr>)
         (PyList [minutia_record 10 10 0]) (PyList [minutia_record 12 9 0]) = Inr 0"
proof -
  have r: "is_minutia_record (minutia_record x y t)"
    if "LONG_MIN \<le> x" "x \<le> LONG_MAX" "LONG_MIN \<le> y" "y \<le> LONG_MAX"
      "LONG_MIN \<le> t" "t \<le> LONG_MAX" for x y t
    using that by (simp add: is_minutia_record_def minutia_record_def)
  have h1: "list_all is_minutia_record [minutia_record 10 10 0, minutia_record 60 10 8]"
    by (simp add: r LONG_MIN_def LONG_MAX_def)
  have h2: "is_minutia_record (minutia_record 10 10 0)"
    by (simp add: r LONG_MIN_def LONG_MAX_def)
  have h3: "is_minutia_record (minutia_record 12 9 0)"
    by (simp add: r LONG_MIN_def LONG_MAX_def)
  show ?thesis
    using h1 h2 h3
      match_xyt_empty_or_single [where lib = example_nbis and ps = example_params,
        OF h1 h2 h3 refl]
    by simp
qed

text \<open>
  The matcher of the specification is not constant: with the example tolerances a
  triangle matches itself and a translated copy in all three minutiae, a set that
  shares one side with it in two, and an unrelated set in none.
\<close>

lemma match_score_triangle_itself: "match_score example_params triangle triangle = 3"
  by code_simp

lemma match_score_triangle_translated:
  "match_score example_params triangle (map (\<lambda>(x, y, t). (x + 100, y + 7, t)) triangle) = 3"
  by code_simp

lemma match_score_triangle_side:
  "match_score example_params triangle [(10, 10, 0), (60, 10, 8), (900, 20, 9)] = 2"
  by code_simp

lemma match_score_triangle_unrelated:
  "match_score example_params triangle [(0, 0, 0), (500, 500, 3), (900, 20, 9)] = 0"
  by code_simp

section \<open>The binarized image\<close>

lemma binarize_spec_length: "length (binarize_spec ps maps idata iw ih) = length idata"
  by (simp add: binarize_spec_def)

lemma binarize_spec_values:
  "v \<in> set (binarize_spec ps maps idata iw ih) \<Longrightarrow> v = 0 \<or> v = 255"
  by (auto simp add: binarize_spec_def)

text \<open>
  C8. With the binarizer of the specification in place of the detector's, for every
  grayscale image of height \<open>h\<close> and width \<open>w\<close>, the binarized image that
  \<open>extract_minutiae\<close> returns has the shape \<open>(h, w)\<close>, holds \<open>h * w\<close> pixels, and
  each pixel is \<open>0\<close> or \<open>255\<close>.
\<close>

theorem binarized_image_shape:
  assumes "grayscale_image a h w"
    and "nbis_extract_minutiae (lib\<lparr>lfs_detect_minutiae_V2 := lfs_detect_minutiae_V2_spec ps\<rparr>)
           malloc_ok (PyArray a) ppi_arg = Inr r"
  shows "r_binarized_dims r = [int h, int w] \<and> length (r_binarized r) = h * w
       \<and> (\<forall>v \<in> set (r_binarized r). v = 0 \<or> v = 255)"
proof -
  let ?lib = "lib\<lparr>lfs_detect_minutiae_V2 := lfs_detect_minutiae_V2_spec ps\<rparr>"
  from assms(1) have len: "length (nd_data a) = h * w" and b: "h * w < 2 ^ 31"
    by (simp_all add: grayscale_image_def)
  from assms(2) obtain img where img: "py_to_image_data malloc_ok (PyArray a) = Inr img"
    by (auto simp add: nbis_extract_minutiae_def split: sum.splits)
  have ok: "malloc_ok (h * w)"
  proof (rule ccontr)
    assume "\<not> malloc_ok (h * w)"
    then have "py_to_image_data malloc_ok (PyArray a) = Inl MemoryError"
      using assms(1)
      by (auto simp add: grayscale_image_def py_to_image_data_def PyArray_FROM_OTF_uint8_def
          copy_image_def Let_def data_size_exact c_int_of_nat)
    with img show False by simp
  qed
  have img': "img = \<lparr>i_data = nd_data a, i_width = int w, i_height = int h, i_depth = 8\<rparr>"
    using py_to_image_data_grayscale [of a h w malloc_ok, OF assms(1) ok] img by simp
  define bin where "bin = binarize_spec ps (ridge_maps ps (nd_data a) (int w) (int h))
      (nd_data a) (int w) (int h)"
  have r: "r_binarized_dims r = [int h, int w]"
    "r_binarized r = take (c_size_t (c_int (int w * int h))) bin"
    using assms(2) img
    by (auto simp add: nbis_extract_minutiae_def img' lfs_detect_minutiae_V2_spec_def Let_def
        bin_def split: sum.splits if_splits)
  have lb: "length bin = h * w" by (simp add: bin_def binarize_spec_length len)
  have rb: "r_binarized r = bin"
    using r(2) lb by (simp add: data_size_exact [OF b])
  have "\<forall>v \<in> set bin. v = 0 \<or> v = 255"
    unfolding bin_def by (auto dest: binarize_spec_values)
  with r(1) rb lb show ?thesis by simp
qed

text \<open>The statement at a \<open>2 \<times> 2\<close> image with one pixel above the threshold.\<close>

theorem binarized_image_shape_witness:
  "grayscale_image (example_image [2, 2]) 2 2
   \<and> nbis_extract_minutiae
        (example_nbis\<lparr>lfs_detect_minutiae_V2 := lfs_detect_minutiae_V2_spec example_detector\<rparr>)
        (\<lambda>n. True) (PyArray (example_image [2, 2])) None
       = Inr \<lparr>r_minutiae = [], r_count = 0, r_binarized_dims = [2, 2],
              r_binarized = [0, 255, 0, 0]\<rparr>"
proof -
  have h1: "grayscale_image (example_image [2, 2]) 2 2"
    by (simp add: grayscale_image_def example_image_def)
  have h2: "nbis_extract_minutiae
        (example_nbis\<lparr>lfs_detect_minutiae_V2 := lfs_detect_minutiae_V2_spec example_detector\<rparr>)
        (\<lambda>n. True) (PyArray (example_image [2, 2])) None
       = Inr \<lparr>r_minutiae = [], r_count = 0, r_binarized_dims = [2, 2],
              r_binarized = [0, 255, 0, 0]\<rparr>"
    by (simp add: nbis_extract_minutiae_def parse_int_arg_def py_to_image_data_def
        PyArray_FROM_OTF_uint8_def copy_image_def example_image_def example_nbis_def
        lfs_detect_minutiae_V2_spec_def binarize_spec_def example_detector_def
        c_int_def c_size_t_def Let_def upt_rec)
  show ?thesis
    using h1 h2 binarized_image_shape [OF h1 h2] by simp
qed

end
